theory Spec2Isabelle
  imports Complex_Main
begin

section \<open>Numbers, arrays and errors\<close>

text \<open>
  The correctors of SBCK compute on numpy arrays of double-precision numbers. Sample
  values, bin widths and bin centers are modelled as reals. The entries of a transport
  plan are modelled as reals extended by the three special values that numpy's division
  produces instead of raising: \<open>inf\<close>, \<open>-inf\<close> and \<open>nan\<close>. The rounding and the overflow of doubles are not
  modelled: a sum or a quotient of finite numbers is the exact one. What a theorem says
  about the exact value of a sum or a quotient therefore holds of the code only where the
  doubles compute it exactly, as they do on the reference instances below.
\<close>

datatype npfloat = Fin real | PInf | NInf | NaN

fun np_add :: "npfloat \<Rightarrow> npfloat \<Rightarrow> npfloat" where
  "np_add NaN y = NaN"
| "np_add x NaN = NaN"
| "np_add (Fin a) (Fin b) = Fin (a + b)"
| "np_add PInf NInf = NaN"
| "np_add NInf PInf = NaN"
| "np_add PInf y = PInf"
| "np_add x PInf = PInf"
| "np_add NInf y = NInf"
| "np_add x NInf = NInf"

text \<open>
  Division as numpy performs it on doubles (errstate "warn"): a division by zero returns
  \<open>nan\<close> (for \<open>0/0\<close>) or an infinity and raises nothing. A zero divisor is taken as \<open>+0.0\<close>.
\<close>

fun np_div :: "npfloat \<Rightarrow> npfloat \<Rightarrow> npfloat" where
  "np_div NaN y = NaN"
| "np_div x NaN = NaN"
| "np_div (Fin a) (Fin b) =
     (if b \<noteq> 0 then Fin (a / b)
      else if a = 0 then NaN
      else if 0 < a then PInf else NInf)"
| "np_div (Fin a) y = Fin 0"
| "np_div PInf (Fin b) = (if 0 \<le> b then PInf else NInf)"
| "np_div NInf (Fin b) = (if 0 \<le> b then NInf else PInf)"
| "np_div x y = NaN"

definition np_sum :: "npfloat list \<Rightarrow> npfloat" where
  "np_sum xs = foldr np_add xs (Fin 0)"

text \<open>
  A two-dimensional numpy array: its shape and its rows. A numpy array is always
  rectangular, which is \<open>wf_mat\<close>.
\<close>

datatype 'a mat = Mat (nrows: nat) (ncols: nat) (rows: "'a list list")

definition wf_mat :: "'a mat \<Rightarrow> bool" where
  "wf_mat M \<longleftrightarrow> length (rows M) = nrows M \<and> list_all (\<lambda>r. length r = ncols M) (rows M)"

text \<open>\<open>M.T\<close>\<close>

definition np_T :: "'a mat \<Rightarrow> 'a mat" where
  "np_T M = Mat (ncols M) (nrows M) (map (\<lambda>j. map (\<lambda>r. r ! j) (rows M)) [0..<ncols M])"

text \<open>\<open>M.sum( axis = 1 )\<close>: the vector of the row sums.\<close>

definition sum_axis1 :: "npfloat mat \<Rightarrow> npfloat list" where
  "sum_axis1 M = map np_sum (rows M)"

text \<open>
  \<open>A / v\<close> for a matrix \<open>A\<close> and a vector \<open>v\<close> with as many entries as \<open>A\<close> has columns:
  broadcasting divides every row of \<open>A\<close> entry by entry by \<open>v\<close>.
\<close>

definition np_divide :: "npfloat mat \<Rightarrow> npfloat list \<Rightarrow> npfloat mat" where
  "np_divide A v = Mat (nrows A) (ncols A) (map (\<lambda>r. map (\<lambda>(x, y). np_div x y) (zip r v)) (rows A))"

text \<open>
  An array of any dimension, as the constructor arguments \<open>bin_width\<close> and \<open>bin_origin\<close> can
  be: a number or a (nested) sequence. \<open>np.array( [a] ).ravel()\<close> is the one-dimensional
  array of the elements of \<open>a\<close>.
\<close>

datatype ndarr = Num real | Arr "ndarr list"

fun flat :: "ndarr \<Rightarrow> real list" where
  "flat (Num x) = [x]"
| "flat (Arr xs) = concat (map flat xs)"

definition vec :: "real list \<Rightarrow> ndarr" where
  "vec v = Arr (map Num v)"

definition ravel :: "ndarr \<Rightarrow> ndarr" where
  "ravel a = vec (flat a)"

definition np_size :: "ndarr \<Rightarrow> nat" where
  "np_size a = length (flat a)"

definition np_zeros :: "nat \<Rightarrow> ndarr" where
  "np_zeros n = vec (replicate n 0)"

fun is_num :: "ndarr \<Rightarrow> bool" where
  "is_num (Num x) = True"
| "is_num (Arr xs) = False"

fun is_1d :: "ndarr \<Rightarrow> bool" where
  "is_1d (Num x) = False"
| "is_1d (Arr xs) = list_all is_num xs"

text \<open>
  The exceptions of Python that the modelled code raises, and the error classes of the
  design's taxonomy. \<open>NotFitted\<close> belongs to the taxonomy.
\<close>

datatype error =
    AttributeError | TypeError | IndexError | ValueError
  | InvalidGrid | OutOfSupportQuery | NotFitted

section \<open>SparseHist\<close>

text \<open>
  Modelled from the spec: the class \<open>SparseHist\<close> (module \<open>tools.__tools_cpp\<close>) is not part
  of the sources. A sample belongs to the bin \<open>floor((x - bin_origin) / bin_width)\<close> per
  dimension; only occupied bins are stored, in a fixed order (here: the order of first
  occurrence in the sample matrix); \<open>c\<close> holds one center per occupied bin, \<open>p\<close> its
  frequency and \<open>size\<close> the number of occupied bins. Construction fails with InvalidGrid
  when a width is not positive or a grid vector's length is not the number of features.
\<close>

record sparse_hist =
  h_width :: "real list"
  h_origin :: "real list"
  h_bins :: "int list list"
  h_c :: "real mat"
  h_p :: "real list"
  h_size :: nat

definition bin_index :: "real list \<Rightarrow> real list \<Rightarrow> real list \<Rightarrow> int list" where
  "bin_index w og x = map (\<lambda>(xi, wi, oi). \<lfloor>(xi - oi) / wi\<rfloor>) (zip x (zip w og))"

definition bin_center :: "real list \<Rightarrow> real list \<Rightarrow> int list \<Rightarrow> real list" where
  "bin_center w og b = map (\<lambda>(bi, wi, oi). oi + wi * (of_int bi + 1 / 2)) (zip b (zip w og))"

definition occupied :: "int list list \<Rightarrow> int list list" where
  "occupied idx = rev (remdups (rev idx))"

definition SparseHist :: "real mat \<Rightarrow> real list \<Rightarrow> real list \<Rightarrow> error + sparse_hist" where
  "SparseHist X w og =
     (if length w \<noteq> ncols X \<or> length og \<noteq> ncols X \<or> list_ex (\<lambda>wi. wi \<le> 0) w
      then Inl InvalidGrid
      else let idx = map (bin_index w og) (rows X);
               bins = occupied idx
           in Inr \<lparr> h_width = w, h_origin = og, h_bins = bins,
                    h_c = Mat (length bins) (ncols X) (map (bin_center w og) bins),
                    h_p = map (\<lambda>b. real (count_list idx b) / real (length idx)) bins,
                    h_size = length bins \<rparr>)"

fun index_of :: "'a \<Rightarrow> 'a list \<Rightarrow> nat option" where
  "index_of a [] = None"
| "index_of a (b # bs) =
     (if a = b then Some 0 else (case index_of a bs of None \<Rightarrow> None | Some i \<Rightarrow> Some (Suc i)))"

text \<open>
  Modelled from the spec: \<open>argwhere\<close> returns, for each row of the query, the index of the
  occupied bin the row falls into. The spec leaves the result open for a row that falls
  into no occupied bin; the model rejects such a query with OutOfSupportQuery, and so it
  does for a query whose number of columns is not the grid's.
\<close>

fun lookup_rows :: "sparse_hist \<Rightarrow> real list list \<Rightarrow> error + nat list" where
  "lookup_rows h [] = Inr []"
| "lookup_rows h (x # xs) =
     (case index_of (bin_index (h_width h) (h_origin h) x) (h_bins h) of
        None \<Rightarrow> Inl OutOfSupportQuery
      | Some i \<Rightarrow> (case lookup_rows h xs of Inl e \<Rightarrow> Inl e | Inr js \<Rightarrow> Inr (i # js)))"

definition argwhere :: "sparse_hist \<Rightarrow> real mat \<Rightarrow> error + nat list" where
  "argwhere h X =
     (if ncols X \<noteq> length (h_width h) then Inl OutOfSupportQuery else lookup_rows h (rows X))"

text \<open>A row of the query falls into a bin that the histogram holds.\<close>

definition in_support :: "sparse_hist \<Rightarrow> real mat \<Rightarrow> bool" where
  "in_support h X \<longleftrightarrow>
     ncols X = length (h_width h) \<and>
     list_all (\<lambda>x. bin_index (h_width h) (h_origin h) x \<in> set (h_bins h)) (rows X)"

section \<open>The collaborators of OTC\<close>

text \<open>
  The transport solvers (\<open>tools.__OT\<close>) and the bin-width estimator
  (\<open>tools.__bin_width_estimator\<close>) are not part of the sources either. The corrector uses
  a solver only through \<open>fit\<close>, \<open>state\<close> and \<open>plan()\<close>, so a solver is a value of an arbitrary
  type \<open>'sv\<close> with these three operations; \<open>fit\<close> mutates the solver and is modelled as
  returning the mutated solver. \<open>OTSinkhornLogDual\<close> and \<open>OTNetworkSimplex\<close> are the
  instances that the constructor calls of these names return.
\<close>

record 'sv collaborators =
  bin_width_estimator :: "real mat list \<Rightarrow> ndarr"
  ot_fit :: "'sv \<Rightarrow> sparse_hist \<Rightarrow> sparse_hist \<Rightarrow> 'sv"
  ot_state :: "'sv \<Rightarrow> bool"
  ot_plan :: "'sv \<Rightarrow> npfloat mat"
  OTSinkhornLogDual :: "'sv"
  OTNetworkSimplex :: "'sv"

section \<open>OTC\<close>

text \<open>
  The attributes of an OTC object; \<open>plan\<close> and \<open>ot\<close> are the attributes \<open>_plan\<close> and \<open>_ot\<close>.
  An attribute that holds Python's None is None here.
\<close>

record 'sv otc =
  muX :: "sparse_hist option"
  muY :: "sparse_hist option"
  bin_width :: "ndarr option"
  bin_origin :: "ndarr option"
  plan :: "npfloat mat option"
  ot :: "'sv"

text \<open>
  \<open>OTC.__init__\<close>. When the caller passes no solver, \<open>ot\<close> is the instance
  \<open>OTNetworkSimplex()\<close> that the default of the argument holds.
\<close>

definition init :: "ndarr option \<Rightarrow> ndarr option \<Rightarrow> 'sv \<Rightarrow> 'sv otc" where
  "init bw bo sv =
     \<lparr> muX = None, muY = None, bin_width = bw, bin_origin = bo, plan = None, ot = sv \<rparr>"

text \<open>
  What a call leaves behind besides the new attributes: the solver runs (the solver as
  it was when its \<open>fit\<close> was called, and the two histograms passed) and the printed lines.
\<close>

datatype 'sv event = SolverFit 'sv sparse_hist sparse_hist | Print string

text \<open>The last two lines of \<open>OTC.fit\<close>: \<open>( P.T / P.sum( axis = 1 ) ).T\<close>\<close>

definition normalize :: "npfloat mat \<Rightarrow> npfloat mat" where
  "normalize P = np_T (np_divide (np_T P) (sum_axis1 P))"

text \<open>
  \<open>OTC.fit\<close>. The result is the exception raised, if any, the attributes as the call leaves
  them (also when it raises), and the events in their order.
\<close>

definition fit ::
  "'sv collaborators \<Rightarrow> 'sv otc \<Rightarrow> real mat \<Rightarrow> real mat \<Rightarrow> error option \<times> 'sv otc \<times> 'sv event list"
where
  "fit E s Y0 X0 =
     (let bw1 = (case bin_width s of Some b \<Rightarrow> ravel (Arr [b])
                 | None \<Rightarrow> bin_width_estimator E [Y0, X0]);
          bo1 = (case bin_origin s of Some b \<Rightarrow> ravel (Arr [b])
                 | None \<Rightarrow> np_zeros (np_size bw1));
          bw = ravel (Arr [bw1]);
          bo = ravel (Arr [bo1]);
          s1 = s\<lparr> bin_width := Some bw, bin_origin := Some bo \<rparr>
      in case SparseHist Y0 (flat bw) (flat bo) of
           Inl e \<Rightarrow> (Some e, s1, [])
         | Inr hY \<Rightarrow>
             (let s2 = s1\<lparr> muY := Some hY \<rparr>
              in case SparseHist X0 (flat bw) (flat bo) of
                   Inl e \<Rightarrow> (Some e, s2, [])
                 | Inr hX \<Rightarrow>
                     (let s3 = s2\<lparr> muX := Some hX \<rparr>;
                          sv1 = ot_fit E (ot s3) hX hY;
                          (sv2, tr) =
                            (if \<not> ot_state E sv1
                             then (ot_fit E (OTSinkhornLogDual E) hX hY,
                                   [SolverFit (ot s3) hX hY,
                                    Print ''Warning: Error in network simplex, try SinkhornLogDual'',
                                    SolverFit (OTSinkhornLogDual E) hX hY])
                             else (sv1, [SolverFit (ot s3) hX hY]))
                      in (None, s3\<lparr> ot := sv2, plan := Some (normalize (ot_plan E sv2)) \<rparr>, tr))))"

section \<open>Prediction\<close>

text \<open>
  \<open>np.random.choice( range(n) , p = p )\<close> of numpy: the arguments are checked (a ValueError
  for an empty population, for a \<open>p\<close> of another size, for a \<open>p\<close> that holds a \<open>nan\<close> or a
  negative number or that does not sum to 1 up to the square root of the machine
  epsilon, \<open>2 ^ -26\<close>; a \<open>p\<close> with an infinite entry fails one of the last two checks;
  the model tests the exact sum where numpy tests the sum it computes in doubles); then
  one uniform number of \<open>[0, 1)\<close> is drawn and looked up, to the right, in the cumulated
  sums of \<open>p\<close> divided by their last. The random source is the sequence \<open>u\<close> of its draws
  and the position \<open>k\<close> of the next one; a rejected call draws nothing.
\<close>

fun finite_list :: "npfloat list \<Rightarrow> real list option" where
  "finite_list [] = Some []"
| "finite_list (Fin a # xs) = (case finite_list xs of None \<Rightarrow> None | Some ys \<Rightarrow> Some (a # ys))"
| "finite_list (x # xs) = None"

fun cumsum :: "real \<Rightarrow> real list \<Rightarrow> real list" where
  "cumsum acc [] = []"
| "cumsum acc (x # xs) = (acc + x) # cumsum (acc + x) xs"

definition searchsorted_right :: "real list \<Rightarrow> real \<Rightarrow> nat" where
  "searchsorted_right cdf v = length (takeWhile (\<lambda>c. c \<le> v) cdf)"

definition choice :: "nat \<Rightarrow> npfloat list \<Rightarrow> (nat \<Rightarrow> real) \<Rightarrow> nat \<Rightarrow> (error + nat) \<times> nat" where
  "choice n p u k =
     (if n = 0 \<or> length p \<noteq> n then (Inl ValueError, k)
      else case finite_list p of
             None \<Rightarrow> (Inl ValueError, k)
           | Some q \<Rightarrow>
               if list_ex (\<lambda>x. x < 0) q \<or> \<bar>sum_list q - 1\<bar> > 1 / 2 ^ 26
               then (Inl ValueError, k)
               else (let cdf = map (\<lambda>t. t / sum_list q) (cumsum 0 q);
                         idx = searchsorted_right cdf (u k)
                     in if idx < n then (Inr idx, Suc k) else (Inl IndexError, Suc k)))"

text \<open>
  The loop of \<open>OTC.predict\<close>: for each source bin index, \<open>self.muY.size\<close>, then the row
  \<open>self._plan[ix,:]\<close>, then the draw.
\<close>

fun draw_loop :: "'sv otc \<Rightarrow> (nat \<Rightarrow> real) \<Rightarrow> nat \<Rightarrow> nat list \<Rightarrow> (error + nat list) \<times> nat" where
  "draw_loop s u k [] = (Inr [], k)"
| "draw_loop s u k (ix # ixs) =
     (case muY s of
        None \<Rightarrow> (Inl AttributeError, k)
      | Some hY \<Rightarrow>
          (case plan s of
             None \<Rightarrow> (Inl TypeError, k)
           | Some P \<Rightarrow>
               if nrows P \<le> ix then (Inl IndexError, k)
               else (case choice (h_size hY) (rows P ! ix) u k of
                       (Inl e, k') \<Rightarrow> (Inl e, k')
                     | (Inr j, k') \<Rightarrow>
                         (case draw_loop s u k' ixs of
                            (Inl e, k'') \<Rightarrow> (Inl e, k'')
                          | (Inr js, k'') \<Rightarrow> (Inr (j # js), k'')))))"

text \<open>\<open>c[indy,:]\<close>: the rows of \<open>c\<close> at the indices \<open>indy\<close>, an IndexError when one is out of range.\<close>

definition take_rows :: "'a mat \<Rightarrow> nat list \<Rightarrow> error + 'a mat" where
  "take_rows C indy =
     (if list_all (\<lambda>j. j < nrows C) indy
      then Inr (Mat (length indy) (ncols C) (map (\<lambda>j. rows C ! j) indy))
      else Inl IndexError)"

text \<open>\<open>OTC.predict\<close>\<close>

definition predict :: "'sv otc \<Rightarrow> (nat \<Rightarrow> real) \<Rightarrow> nat \<Rightarrow> real mat \<Rightarrow> (error + real mat) \<times> nat" where
  "predict s u k X0 =
     (case muX s of
        None \<Rightarrow> (Inl AttributeError, k)
      | Some hX \<Rightarrow>
          (case argwhere hX X0 of
             Inl e \<Rightarrow> (Inl e, k)
           | Inr indx \<Rightarrow>
               (case draw_loop s u k indx of
                  (Inl e, k') \<Rightarrow> (Inl e, k')
                | (Inr indy, k') \<Rightarrow>
                    (case muY s of
                       None \<Rightarrow> (Inl AttributeError, k')
                     | Some hY \<Rightarrow> (take_rows (h_c hY) indy, k')))))"

section \<open>The grid and the plan of a fit\<close>

text \<open>
  The bin widths and the bin origin that a call of \<open>fit\<close> works with, as flat vectors: the
  attribute as the call finds it when it is not None, and otherwise the estimate from the
  two datasets of the call, respectively as many zeros as there are widths.
\<close>

definition grid_width :: "'sv collaborators \<Rightarrow> 'sv otc \<Rightarrow> real mat \<Rightarrow> real mat \<Rightarrow> real list" where
  "grid_width E s Y0 X0 =
     flat (case bin_width s of Some b \<Rightarrow> b | None \<Rightarrow> bin_width_estimator E [Y0, X0])"

definition grid_origin :: "'sv collaborators \<Rightarrow> 'sv otc \<Rightarrow> real mat \<Rightarrow> real mat \<Rightarrow> real list" where
  "grid_origin E s Y0 X0 =
     (case bin_origin s of Some b \<Rightarrow> flat b
      | None \<Rightarrow> replicate (length (grid_width E s Y0 X0)) 0)"

text \<open>Every row of the plan has a finite, strictly positive sum.\<close>

definition positive_rows :: "npfloat mat \<Rightarrow> bool" where
  "positive_rows P \<longleftrightarrow> list_all (\<lambda>r. case np_sum r of Fin t \<Rightarrow> 0 < t | _ \<Rightarrow> False) (rows P)"

text \<open>
  A transport plan between two histograms as the data model has it: one row per source
  bin, one column per target bin, finite entries that are not negative, and a positive
  mass leaving every source bin.
\<close>

fun nonneg :: "npfloat \<Rightarrow> bool" where
  "nonneg (Fin a) = (0 \<le> a)"
| "nonneg x = False"

definition transport_plan :: "sparse_hist \<Rightarrow> sparse_hist \<Rightarrow> npfloat mat \<Rightarrow> bool" where
  "transport_plan hX hY P \<longleftrightarrow>
     wf_mat P \<and> nrows P = h_size hX \<and> ncols P = h_size hY
     \<and> list_all (list_all nonneg) (rows P) \<and> positive_rows P"

text \<open>Every draw of the random source lies in \<open>[0, 1)\<close>, as numpy's \<open>random_sample\<close> promises.\<close>

definition unit_draws :: "(nat \<Rightarrow> real) \<Rightarrow> bool" where
  "unit_draws u \<longleftrightarrow> (\<forall>k. 0 \<le> u k \<and> u k < 1)"

section \<open>ECBC\<close>

text \<open>
  \<open>ECBC\<close> extends \<open>CDFt\<close> and owns a \<open>SchaakeShuffle\<close>; neither class is part of the sources.
  What they exchange with \<open>ECBC\<close> are Python values: an array or a pair of values. The
  attributes that \<open>CDFt\<close> keeps on the object are a value of an arbitrary type \<open>'c\<close>, the
  shuffle a value of an arbitrary type \<open>'ss\<close>; a method that mutates its object returns the
  exception raised, if any, and the object as the call leaves it.
\<close>

datatype pyval = Nd ndarr | Tuple pyval pyval

record ('c, 'ss) ecbc_collaborators =
  CDFt_fit :: "'c \<Rightarrow> pyval \<Rightarrow> pyval \<Rightarrow> pyval option \<Rightarrow> error option \<times> 'c"
  CDFt_predict :: "'c \<Rightarrow> pyval \<Rightarrow> pyval option \<Rightarrow> error + pyval"
  SchaakeShuffle :: "'ss"
  ss_fit :: "'ss \<Rightarrow> pyval \<Rightarrow> error option \<times> 'ss"
  ss_predict :: "'ss \<Rightarrow> pyval \<Rightarrow> error + pyval"

text \<open>The attributes of an ECBC object: those of \<open>CDFt\<close>, and \<open>_ss\<close>.\<close>

record ('c, 'ss) ecbc =
  cdft :: "'c"
  ss :: "'ss"

text \<open>\<open>ECBC.__init__\<close>, given the attributes that \<open>CDFt.__init__\<close> sets.\<close>

definition ECBC_init :: "('c, 'ss) ecbc_collaborators \<Rightarrow> 'c \<Rightarrow> ('c, 'ss) ecbc" where
  "ECBC_init C c0 = \<lparr> cdft = c0, ss = SchaakeShuffle C \<rparr>"

text \<open>\<open>ECBC.fit\<close>\<close>

definition ECBC_fit ::
  "('c, 'ss) ecbc_collaborators \<Rightarrow> ('c, 'ss) ecbc \<Rightarrow> pyval \<Rightarrow> pyval \<Rightarrow> pyval option
     \<Rightarrow> error option \<times> ('c, 'ss) ecbc"
where
  "ECBC_fit C e Y0 X0 X1 =
     (case CDFt_fit C (cdft e) Y0 X0 X1 of
        (Some err, c') \<Rightarrow> (Some err, e\<lparr> cdft := c' \<rparr>)
      | (None, c') \<Rightarrow>
          (case ss_fit C (ss e) Y0 of
             (r, ss') \<Rightarrow> (r, e\<lparr> cdft := c', ss := ss' \<rparr>)))"

text \<open>
  \<open>Z1,Z0 = Z\<close>: a pair unpacks into its components, an array with two entries along its
  first axis into these two; any other array raises.
\<close>

fun unpack2 :: "pyval \<Rightarrow> error + pyval \<times> pyval" where
  "unpack2 (Tuple a b) = Inr (a, b)"
| "unpack2 (Nd (Arr [a, b])) = Inr (Nd a, Nd b)"
| "unpack2 (Nd (Arr xs)) = Inl ValueError"
| "unpack2 (Nd (Num x)) = Inl TypeError"

text \<open>\<open>ECBC.predict\<close>\<close>

definition ECBC_predict ::
  "('c, 'ss) ecbc_collaborators \<Rightarrow> ('c, 'ss) ecbc \<Rightarrow> pyval \<Rightarrow> pyval option \<Rightarrow> error + pyval"
where
  "ECBC_predict C e X1 X0 =
     (case CDFt_predict C (cdft e) X1 X0 of
        Inl err \<Rightarrow> Inl err
      | Inr Z \<Rightarrow>
          if X0 \<noteq> None
          then (case unpack2 Z of
                  Inl err \<Rightarrow> Inl err
                | Inr (Z1, Z0) \<Rightarrow>
                    (case ss_predict C (ss e) Z1 of
                       Inl err \<Rightarrow> Inl err
                     | Inr Z1' \<Rightarrow>
                         (case ss_predict C (ss e) Z0 of
                            Inl err \<Rightarrow> Inl err
                          | Inr Z0' \<Rightarrow> Inr (Tuple Z1' Z0'))))
          else ss_predict C (ss e) Z)"

section \<open>Reference instances\<close>

text \<open>
  Instances of the collaborators on which the model is evaluated. The reference solver
  counts the calls of its \<open>fit\<close>. An \<open>Exact\<close> one returns the product coupling of the two
  histograms; a \<open>Diverge\<close> one reports failure through its state flag; a \<open>Starve\<close> one returns
  a coupling that moves no mass out of the first source bin. The reference estimator
  halves the width when the number of pooled samples doubles.
\<close>

datatype behaviour = Exact | Diverge | Starve

record ref_solver =
  rs_behaviour :: behaviour
  rs_fits :: nat
  rs_state :: bool
  rs_plan :: "npfloat mat"

definition fresh :: "behaviour \<Rightarrow> ref_solver" where
  "fresh b = \<lparr> rs_behaviour = b, rs_fits = 0, rs_state = True, rs_plan = Mat 0 0 [] \<rparr>"

definition coupling :: "sparse_hist \<Rightarrow> sparse_hist \<Rightarrow> npfloat mat" where
  "coupling hX hY =
     Mat (h_size hX) (h_size hY) (map (\<lambda>a. map (\<lambda>b. Fin (a * b)) (h_p hY)) (h_p hX))"

definition starved :: "sparse_hist \<Rightarrow> sparse_hist \<Rightarrow> npfloat mat" where
  "starved hX hY =
     Mat (h_size hX) (h_size hY)
       (case h_p hX of [] \<Rightarrow> []
        | a # as \<Rightarrow> map (\<lambda>b. Fin 0) (h_p hY) # map (\<lambda>a. map (\<lambda>b. Fin (a * b)) (h_p hY)) as)"

definition ref_fit :: "ref_solver \<Rightarrow> sparse_hist \<Rightarrow> sparse_hist \<Rightarrow> ref_solver" where
  "ref_fit sv hX hY =
     sv\<lparr> rs_fits := Suc (rs_fits sv),
         rs_state := (rs_behaviour sv \<noteq> Diverge),
         rs_plan := (case rs_behaviour sv of
                       Exact \<Rightarrow> coupling hX hY
                     | Diverge \<Rightarrow> Mat 0 0 []
                     | Starve \<Rightarrow> starved hX hY) \<rparr>"

definition ref_estimator :: "real mat list \<Rightarrow> ndarr" where
  "ref_estimator Ms =
     (case Ms of [] \<Rightarrow> vec []
      | M # _ \<Rightarrow> vec (replicate (ncols M) (4 / real (sum_list (map nrows Ms)))))"

definition E_ref :: "ref_solver collaborators" where
  "E_ref = \<lparr> bin_width_estimator = ref_estimator, ot_fit = ref_fit, ot_state = rs_state,
             ot_plan = rs_plan, OTSinkhornLogDual = fresh Exact, OTNetworkSimplex = fresh Exact \<rparr>"

text \<open>Two pairs of one-dimensional datasets.\<close>

definition Y0_ref :: "real mat" where "Y0_ref = Mat 2 1 [[0], [1]]"
definition X0_ref :: "real mat" where "X0_ref = Mat 2 1 [[0], [2]]"
definition Y1_ref :: "real mat" where "Y1_ref = Mat 4 1 [[0], [1 / 2], [1], [3 / 2]]"
definition X1_ref :: "real mat" where "X1_ref = Mat 4 1 [[0], [1 / 2], [2], [5 / 2]]"

text \<open>Their histograms on the grid of width 1 and origin 0, and the plans between them.\<close>

definition hY_ref :: sparse_hist where
  "hY_ref = \<lparr> h_width = [1], h_origin = [0], h_bins = [[0], [1]],
              h_c = Mat 2 1 [[1 / 2], [3 / 2]], h_p = [1 / 2, 1 / 2], h_size = 2 \<rparr>"

definition hX_ref :: sparse_hist where
  "hX_ref = \<lparr> h_width = [1], h_origin = [0], h_bins = [[0], [2]],
              h_c = Mat 2 1 [[1 / 2], [5 / 2]], h_p = [1 / 2, 1 / 2], h_size = 2 \<rparr>"

definition raw_ref :: "npfloat mat" where
  "raw_ref = Mat 2 2 [[Fin (1 / 4), Fin (1 / 4)], [Fin (1 / 4), Fin (1 / 4)]]"

definition plan_ref :: "npfloat mat" where
  "plan_ref = Mat 2 2 [[Fin (1 / 2), Fin (1 / 2)], [Fin (1 / 2), Fin (1 / 2)]]"

text \<open>
  A corrector with a bin width of 1 and the exact reference solver, and the corrector
  that its fit on the first pair of datasets leaves.
\<close>

definition s_ref :: "ref_solver otc" where
  "s_ref = init (Some (vec [1])) None (fresh Exact)"

definition fitted_ref :: "ref_solver otc" where
  "fitted_ref = \<lparr> muX = Some hX_ref, muY = Some hY_ref, bin_width = Some (vec [1]),
                  bin_origin = Some (vec [0]), plan = Some plan_ref,
                  ot = \<lparr> rs_behaviour = Exact, rs_fits = 1, rs_state = True, rs_plan = raw_ref \<rparr> \<rparr>"

text \<open>Draws of the random source: 3/4 first, 1/4 from then on.\<close>

definition u_ref :: "nat \<Rightarrow> real" where
  "u_ref k = (if k = 0 then 3 / 4 else 1 / 4)"

text \<open>
  Reference collaborators of ECBC: the quantile mapping returns its inputs and counts
  its fits, the shuffle keeps the dataset it was fitted on and reverses the entries of an
  array along its first axis.
\<close>

definition C_ref :: "(nat, pyval option) ecbc_collaborators" where
  "C_ref = \<lparr> CDFt_fit = (\<lambda>c Y0 X0 X1. (None, Suc c)),
             CDFt_predict = (\<lambda>c X1 X0. Inr (case X0 of None \<Rightarrow> X1 | Some x0 \<Rightarrow> Tuple X1 x0)),
             SchaakeShuffle = None,
             ss_fit = (\<lambda>sh Y0. (None, Some Y0)),
             ss_predict = (\<lambda>sh Z. case sh of None \<Rightarrow> Inl AttributeError
                            | Some y \<Rightarrow> (case Z of Nd (Arr xs) \<Rightarrow> Inr (Nd (Arr (rev xs)))
                                          | _ \<Rightarrow> Inl TypeError)) \<rparr>"

text \<open>
  The corrector that a second fit of \<open>fitted_ref\<close>, on the second pair of datasets, leaves;
  a corrector whose solver diverges and one whose solver starves the first source bin,
  and what the fit of the latter leaves.
\<close>

definition refitted_ref :: "ref_solver otc" where
  "refitted_ref = fitted_ref\<lparr> ot := \<lparr> rs_behaviour = Exact, rs_fits = 2, rs_state = True,
                                         rs_plan = raw_ref \<rparr> \<rparr>"

definition s_diverge :: "ref_solver otc" where
  "s_diverge = init (Some (vec [1])) None (fresh Diverge)"

definition s_starve :: "ref_solver otc" where
  "s_starve = init (Some (vec [1])) None (fresh Starve)"

definition starved_ref :: "ref_solver otc" where
  "starved_ref = \<lparr> muX = Some hX_ref, muY = Some hY_ref, bin_width = Some (vec [1]),
                   bin_origin = Some (vec [0]),
                   plan = Some (Mat 2 2 [[NaN, NaN], [Fin (1 / 2), Fin (1 / 2)]]),
                   ot = \<lparr> rs_behaviour = Starve, rs_fits = 1, rs_state = True,
                          rs_plan = Mat 2 2 [[Fin 0, Fin 0], [Fin (1 / 4), Fin (1 / 4)]] \<rparr> \<rparr>"

text \<open>A dataset with two features.\<close>

definition X2_ref :: "real mat" where "X2_ref = Mat 2 2 [[0, 0], [2, 2]]"

text \<open>What a fit of \<open>s_ref\<close> leaves when it fails on the second dataset.\<close>

definition half_fitted_ref :: "ref_solver otc" where
  "half_fitted_ref = s_ref\<lparr> bin_width := Some (vec [1]), bin_origin := Some (vec [0]),
                             muY := Some hY_ref \<rparr>"

text \<open>A query of two samples, one of each source bin of \<open>hX_ref\<close>.\<close>

definition Xq_ref :: "real mat" where "Xq_ref = Mat 2 1 [[2], [0]]"

section \<open>Row normalization and the steps of a fit\<close>

lemma zip_div_map:
  "map (\<lambda>(x, y). np_div x y) (zip (map f xs) (map g xs)) = map (\<lambda>r. np_div (f r) (g r)) xs"
  by (induction xs) simp_all

lemma normalize_rows:
  assumes "wf_mat P"
  shows "normalize P =
    Mat (nrows P) (ncols P) (map (\<lambda>r. map (\<lambda>x. np_div x (np_sum r)) r) (rows P))"
proof -
  have len: "length (rows P) = nrows P" and cols: "\<And>r. r \<in> set (rows P) \<Longrightarrow> length r = ncols P"
    using assms by (auto simp: wf_mat_def list_all_iff)
  have "map (\<lambda>i. map (\<lambda>r'. r' ! i)
            (map (\<lambda>j. map (\<lambda>r. np_div (r ! j) (np_sum r)) (rows P)) [0..<ncols P])) [0..<nrows P]
        = map (\<lambda>r. map (\<lambda>x. np_div x (np_sum r)) r) (rows P)"
  proof (rule nth_equalityI)
    show "length (map (\<lambda>i. map (\<lambda>r'. r' ! i)
            (map (\<lambda>j. map (\<lambda>r. np_div (r ! j) (np_sum r)) (rows P)) [0..<ncols P])) [0..<nrows P])
        = length (map (\<lambda>r. map (\<lambda>x. np_div x (np_sum r)) r) (rows P))"
      by (simp add: len)
  next
    fix i
    assume "i < length (map (\<lambda>i. map (\<lambda>r'. r' ! i)
            (map (\<lambda>j. map (\<lambda>r. np_div (r ! j) (np_sum r)) (rows P)) [0..<ncols P])) [0..<nrows P])"
    then have i: "i < nrows P" by simp
    then have li: "length (rows P ! i) = ncols P"
      using cols len by simp
    have "map (\<lambda>j. np_div (rows P ! i ! j) (np_sum (rows P ! i))) [0..<ncols P]
          = map (\<lambda>x. np_div x (np_sum (rows P ! i))) (rows P ! i)"
      by (rule nth_equalityI) (simp_all add: li)
    then show "map (\<lambda>i. map (\<lambda>r'. r' ! i)
            (map (\<lambda>j. map (\<lambda>r. np_div (r ! j) (np_sum r)) (rows P)) [0..<ncols P])) [0..<nrows P] ! i
        = map (\<lambda>r. map (\<lambda>x. np_div x (np_sum r)) r) (rows P) ! i"
      using i len by (simp add: o_def)
  qed
  then show ?thesis
    by (simp add: normalize_def np_T_def np_divide_def sum_axis1_def zip_div_map o_def)
qed

lemma finite_list_map_Fin: "finite_list (map Fin q) = Some q"
  by (induction q) simp_all

lemma finite_list_SomeD: "finite_list p = Some q \<Longrightarrow> p = map Fin q"
proof (induction p arbitrary: q)
  case Nil
  then show ?case by simp
next
  case (Cons a p)
  then show ?case by (cases a) (auto split: option.splits)
qed

lemma np_sum_Fin_imp: "np_sum r = Fin t \<Longrightarrow> \<exists>q. r = map Fin q \<and> sum_list q = t"
proof (induction r arbitrary: t)
  case Nil
  then show ?case by (simp add: np_sum_def)
next
  case (Cons a r)
  from Cons.prems obtain x y where a: "a = Fin x" and y: "np_sum r = Fin y" and t: "t = x + y"
    by (cases a; cases "np_sum r") (auto simp: np_sum_def)
  from Cons.IH[OF y] obtain q where "r = map Fin q" "sum_list q = y" by blast
  then have "a # r = map Fin (x # q) \<and> sum_list (x # q) = t" using a t by simp
  then show ?case by (rule exI[of _ "x # q"])
qed

lemma div_Fin_row: "t \<noteq> 0 \<Longrightarrow> map (\<lambda>x. np_div x (Fin t)) (map Fin q) = map Fin (map (\<lambda>x. x / t) q)"
  by (induction q) simp_all

lemma sum_list_div: "sum_list (map (\<lambda>x. x / t) q) = sum_list q / (t::real)"
  by (induction q) (simp_all add: add_divide_distrib)

lemma flat_vec [simp]: "flat (vec v) = v"
  by (induction v) (simp_all add: vec_def)

lemma ravel_array1 [simp]: "ravel (Arr [a]) = vec (flat a)"
  by (simp add: ravel_def)

lemma fit_eq:
  "fit E s Y0 X0 =
     (let w = grid_width E s Y0 X0; og = grid_origin E s Y0 X0;
          s1 = s\<lparr> bin_width := Some (vec w), bin_origin := Some (vec og) \<rparr>
      in case SparseHist Y0 w og of
           Inl e \<Rightarrow> (Some e, s1, [])
         | Inr hY \<Rightarrow>
             (case SparseHist X0 w og of
                Inl e \<Rightarrow> (Some e, s1\<lparr> muY := Some hY \<rparr>, [])
              | Inr hX \<Rightarrow>
                  (if ot_state E (ot_fit E (ot s) hX hY)
                   then (None, s1\<lparr> muY := Some hY, muX := Some hX, ot := ot_fit E (ot s) hX hY,
                               plan := Some (normalize (ot_plan E (ot_fit E (ot s) hX hY))) \<rparr>,
                         [SolverFit (ot s) hX hY])
                   else (None, s1\<lparr> muY := Some hY, muX := Some hX,
                               ot := ot_fit E (OTSinkhornLogDual E) hX hY,
                               plan := Some (normalize (ot_plan E (ot_fit E (OTSinkhornLogDual E) hX hY))) \<rparr>,
                         [SolverFit (ot s) hX hY,
                          Print ''Warning: Error in network simplex, try SinkhornLogDual'',
                          SolverFit (OTSinkhornLogDual E) hX hY]))))"
  by (simp add: fit_def grid_width_def grid_origin_def np_size_def np_zeros_def Let_def
           split: option.splits sum.splits)

lemma fit_returns:
  assumes "fit E s Y0 X0 = (None, s', tr)"
  shows "\<exists>hY hX. SparseHist Y0 (grid_width E s Y0 X0) (grid_origin E s Y0 X0) = Inr hY
           \<and> SparseHist X0 (grid_width E s Y0 X0) (grid_origin E s Y0 X0) = Inr hX
           \<and> muY s' = Some hY \<and> muX s' = Some hX
           \<and> plan s' = Some (normalize (ot_plan E (ot s')))
           \<and> bin_width s' = Some (vec (grid_width E s Y0 X0))
           \<and> bin_origin s' = Some (vec (grid_origin E s Y0 X0))"
  using assms by (auto simp: fit_eq Let_def split: sum.splits if_splits)

lemma SparseHist_Y0_ref: "SparseHist Y0_ref [1] [0] = Inr hY_ref"
  by (simp add: SparseHist_def Y0_ref_def hY_ref_def bin_index_def bin_center_def occupied_def Let_def)

lemma SparseHist_X0_ref: "SparseHist X0_ref [1] [0] = Inr hX_ref"
  by (simp add: SparseHist_def X0_ref_def hX_ref_def bin_index_def bin_center_def occupied_def Let_def)

lemma coupling_ref: "coupling hX_ref hY_ref = raw_ref"
  by (simp add: coupling_def hX_ref_def hY_ref_def raw_ref_def)

lemma normalize_raw_ref: "normalize raw_ref = plan_ref"
proof -
  have "wf_mat raw_ref" by (simp add: wf_mat_def raw_ref_def)
  then show ?thesis
    by (simp add: normalize_rows) (simp add: raw_ref_def plan_ref_def np_sum_def)
qed

lemma fit_ref:
  "fit E_ref s_ref Y0_ref X0_ref = (None, fitted_ref, [SolverFit (fresh Exact) hX_ref hY_ref])"
  by (simp add: fit_eq grid_width_def grid_origin_def s_ref_def init_def SparseHist_Y0_ref
      SparseHist_X0_ref E_ref_def ref_fit_def fresh_def coupling_ref normalize_raw_ref fitted_ref_def)

section \<open>Evaluating the reference instances\<close>

lemma init_sel [simp]:
  "muX (init bw bo sv) = None" "muY (init bw bo sv) = None" "plan (init bw bo sv) = None"
  "bin_width (init bw bo sv) = bw" "bin_origin (init bw bo sv) = bo" "ot (init bw bo sv) = sv"
  by (simp_all add: init_def)

lemma SparseHist_Y1_ref: "SparseHist Y1_ref [1] [0] = Inr hY_ref"
  by (simp add: SparseHist_def Y1_ref_def hY_ref_def bin_index_def bin_center_def occupied_def Let_def)

lemma SparseHist_X1_ref: "SparseHist X1_ref [1] [0] = Inr hX_ref"
  by (simp add: SparseHist_def X1_ref_def hX_ref_def bin_index_def bin_center_def occupied_def Let_def)

lemma fit_auto:
  "fit E_ref (init None None (fresh Exact)) Y0_ref X0_ref
     = (None, fitted_ref, [SolverFit (fresh Exact) hX_ref hY_ref])"
proof -
  have gw: "grid_width E_ref (init None None (fresh Exact)) Y0_ref X0_ref = [1]"
    by (simp add: grid_width_def init_def E_ref_def ref_estimator_def Y0_ref_def X0_ref_def)
  have go: "grid_origin E_ref (init None None (fresh Exact)) Y0_ref X0_ref = [0]"
    by (simp add: grid_origin_def gw)
  show ?thesis
    by (simp add: fit_eq gw go SparseHist_Y0_ref SparseHist_X0_ref)
       (simp add: init_def E_ref_def ref_fit_def fresh_def coupling_ref normalize_raw_ref
          fitted_ref_def)
qed

lemma fit_again:
  "fit E_ref fitted_ref Y1_ref X1_ref = (None, refitted_ref, [SolverFit (ot fitted_ref) hX_ref hY_ref])"
  by (simp add: fit_eq grid_width_def grid_origin_def SparseHist_Y1_ref
      SparseHist_X1_ref E_ref_def ref_fit_def coupling_ref normalize_raw_ref fitted_ref_def
      refitted_ref_def)

lemma fit_diverge:
  "fit E_ref s_diverge Y0_ref X0_ref
     = (None, fitted_ref,
        [SolverFit (fresh Diverge) hX_ref hY_ref,
         Print ''Warning: Error in network simplex, try SinkhornLogDual'',
         SolverFit (fresh Exact) hX_ref hY_ref])"
  by (simp add: fit_eq grid_width_def grid_origin_def s_diverge_def init_def SparseHist_Y0_ref
      SparseHist_X0_ref E_ref_def ref_fit_def fresh_def coupling_ref normalize_raw_ref fitted_ref_def)

lemma starved_hists:
  "starved hX_ref hY_ref = Mat 2 2 [[Fin 0, Fin 0], [Fin (1 / 4), Fin (1 / 4)]]"
  by (simp add: starved_def hX_ref_def hY_ref_def)

lemma normalize_starved:
  "normalize (Mat 2 2 [[Fin 0, Fin 0], [Fin (1 / 4), Fin (1 / 4)]])
     = Mat 2 2 [[NaN, NaN], [Fin (1 / 2), Fin (1 / 2)]]"
proof -
  have "wf_mat (Mat 2 2 [[Fin 0, Fin 0], [Fin (1 / 4), Fin (1 / 4)]])"
    by (simp add: wf_mat_def)
  then show ?thesis
    by (simp add: normalize_rows) (simp add: np_sum_def)
qed

lemma fit_starve:
  "fit E_ref s_starve Y0_ref X0_ref = (None, starved_ref, [SolverFit (fresh Starve) hX_ref hY_ref])"
  by (simp add: fit_eq grid_width_def grid_origin_def s_starve_def init_def SparseHist_Y0_ref
      SparseHist_X0_ref E_ref_def ref_fit_def fresh_def starved_hists normalize_starved starved_ref_def)

section \<open>The solver and its fallback\<close>

text \<open>
  Claim C3. Once the two histograms are built, a call of fit returns, whatever the state
  flags of the solvers say. When the state flag of the corrector's solver is false after
  its fit, the call prints the warning and fits a new OTSinkhornLogDual, once, on the same
  two histograms; the corrector keeps that solver and the plan is its plan, normalized.
\<close>

theorem fit_falls_back_once:
  assumes "SparseHist Y0 (grid_width E s Y0 X0) (grid_origin E s Y0 X0) = Inr hY"
      and "SparseHist X0 (grid_width E s Y0 X0) (grid_origin E s Y0 X0) = Inr hX"
  shows "\<exists>s' tr. fit E s Y0 X0 = (None, s', tr)
           \<and> (\<not> ot_state E (ot_fit E (ot s) hX hY) \<longrightarrow>
                tr = [SolverFit (ot s) hX hY,
                      Print ''Warning: Error in network simplex, try SinkhornLogDual'',
                      SolverFit (OTSinkhornLogDual E) hX hY]
                \<and> ot s' = ot_fit E (OTSinkhornLogDual E) hX hY
                \<and> plan s' = Some (normalize (ot_plan E (ot_fit E (OTSinkhornLogDual E) hX hY))))
           \<and> (ot_state E (ot_fit E (ot s) hX hY) \<longrightarrow> tr = [SolverFit (ot s) hX hY])"
  using assms by (simp add: fit_eq Let_def)

theorem fit_falls_back_once_witness:
  "SparseHist Y0_ref (grid_width E_ref s_diverge Y0_ref X0_ref) (grid_origin E_ref s_diverge Y0_ref X0_ref) = Inr hY_ref
   \<and> SparseHist X0_ref (grid_width E_ref s_diverge Y0_ref X0_ref) (grid_origin E_ref s_diverge Y0_ref X0_ref) = Inr hX_ref
   \<and> \<not> ot_state E_ref (ot_fit E_ref (ot s_diverge) hX_ref hY_ref)
   \<and> (\<exists>s'. fit E_ref s_diverge Y0_ref X0_ref =
             (None, s', [SolverFit (ot s_diverge) hX_ref hY_ref,
                         Print ''Warning: Error in network simplex, try SinkhornLogDual'',
                         SolverFit (OTSinkhornLogDual E_ref) hX_ref hY_ref])
          \<and> ot s' = ot_fit E_ref (OTSinkhornLogDual E_ref) hX_ref hY_ref)"
proof -
  have gw: "grid_width E_ref s_diverge Y0_ref X0_ref = [1]"
    by (simp add: grid_width_def s_diverge_def)
  have go: "grid_origin E_ref s_diverge Y0_ref X0_ref = [0]"
    by (simp add: grid_origin_def grid_width_def s_diverge_def)
  have hy: "SparseHist Y0_ref (grid_width E_ref s_diverge Y0_ref X0_ref)
              (grid_origin E_ref s_diverge Y0_ref X0_ref) = Inr hY_ref"
    by (simp add: gw go SparseHist_Y0_ref)
  have hx: "SparseHist X0_ref (grid_width E_ref s_diverge Y0_ref X0_ref)
              (grid_origin E_ref s_diverge Y0_ref X0_ref) = Inr hX_ref"
    by (simp add: gw go SparseHist_X0_ref)
  have st: "\<not> ot_state E_ref (ot_fit E_ref (ot s_diverge) hX_ref hY_ref)"
    by (simp add: E_ref_def ref_fit_def s_diverge_def init_def fresh_def)
  from fit_falls_back_once[OF hy hx] st hy hx show ?thesis by auto
qed

text \<open>
  Claim C8, as the code has it. A call of fit runs the solver that the corrector holds
  when the call is made: in a second call, the instance that the first call retained.
  When the state flag of that instance is true after its fit, it is the instance the
  corrector keeps and the new plan is its plan, normalized.
\<close>

theorem fit_runs_retained_solver:
  assumes "fit E s0 Y0 X0 = (r1, s1, tr1)"
      and "fit E s1 Y1 X1 = (None, s2, tr2)"
  shows "\<exists>hX hY. muX s2 = Some hX \<and> muY s2 = Some hY
           \<and> hd tr2 = SolverFit (ot s1) hX hY
           \<and> (ot_state E (ot_fit E (ot s1) hX hY) \<longrightarrow>
                tr2 = [SolverFit (ot s1) hX hY]
                \<and> ot s2 = ot_fit E (ot s1) hX hY
                \<and> plan s2 = Some (normalize (ot_plan E (ot_fit E (ot s1) hX hY))))"
  using assms(2) by (auto simp: fit_eq Let_def split: sum.splits if_splits)

theorem fit_runs_retained_solver_witness:
  "fit E_ref s_ref Y0_ref X0_ref = (None, fitted_ref, [SolverFit (fresh Exact) hX_ref hY_ref])
   \<and> fit E_ref fitted_ref Y1_ref X1_ref = (None, refitted_ref, [SolverFit (ot fitted_ref) hX_ref hY_ref])
   \<and> ot_state E_ref (ot_fit E_ref (ot fitted_ref) hX_ref hY_ref)
   \<and> ot refitted_ref = ot_fit E_ref (ot fitted_ref) hX_ref hY_ref"
proof -
  have hs: "muX refitted_ref = Some hX_ref" "muY refitted_ref = Some hY_ref"
    by (simp_all add: refitted_ref_def fitted_ref_def)
  have st: "ot_state E_ref (ot_fit E_ref (ot fitted_ref) hX_ref hY_ref)"
    by (simp add: E_ref_def ref_fit_def fitted_ref_def)
  from fit_runs_retained_solver[OF fit_ref fit_again] hs st
  have "ot refitted_ref = ot_fit E_ref (ot fitted_ref) hX_ref hY_ref" by auto
  with fit_ref fit_again st show ?thesis by simp
qed

text \<open>
  Claim C8 as stated fails: the second fit of the reference corrector runs the very solver
  that the first fit retained (the one whose fit had been called once), that solver
  computes the new plan, and it is the one retained again.
\<close>

theorem second_fit_reuses_solver:
  "fit E_ref s_ref Y0_ref X0_ref = (None, fitted_ref, [SolverFit (fresh Exact) hX_ref hY_ref])
   \<and> rs_fits (ot fitted_ref) = 1
   \<and> fit E_ref fitted_ref Y1_ref X1_ref = (None, refitted_ref, [SolverFit (ot fitted_ref) hX_ref hY_ref])
   \<and> rs_fits (ot refitted_ref) = 2
   \<and> plan refitted_ref = Some (normalize (ot_plan E_ref (ot_fit E_ref (ot fitted_ref) hX_ref hY_ref)))"
  by (simp add: fit_ref fit_again)
     (simp add: fitted_ref_def refitted_ref_def E_ref_def ref_fit_def coupling_ref normalize_raw_ref)

section \<open>The grid of a fit\<close>

lemma is_1d_vec [simp]: "is_1d (vec v)"
  by (simp add: vec_def list_all_iff)

lemma fit_attrs:
  "fit E s Y0 X0 = (r, s', tr) \<Longrightarrow>
     bin_width s' = Some (vec (grid_width E s Y0 X0))
     \<and> bin_origin s' = Some (vec (grid_origin E s Y0 X0))"
  by (auto simp: fit_eq Let_def split: sum.splits if_splits)

lemma SparseHist_grid:
  "SparseHist X w og = Inr h \<Longrightarrow> h_width h = w \<and> h_origin h = og"
  by (auto simp: SparseHist_def Let_def split: if_splits)

text \<open>
  Claim C7, as the code has it. A call of fit takes the bin widths from the attribute
  \<open>bin_width\<close> as it finds it (flattened), and estimates them from the two datasets of the
  call only when the attribute is None; it takes the origin from the attribute
  \<open>bin_origin\<close> (flattened), and as many zeros as there are widths when the attribute is
  None. It stores both vectors, and when it returns, both histograms are built from
  their dataset with these two vectors.
\<close>

theorem fit_grid:
  assumes "fit E s Y0 X0 = (r, s', tr)"
  shows "(\<forall>b. bin_width s = Some b \<longrightarrow> grid_width E s Y0 X0 = flat b)
       \<and> (bin_width s = None \<longrightarrow> grid_width E s Y0 X0 = flat (bin_width_estimator E [Y0, X0]))
       \<and> (\<forall>b. bin_origin s = Some b \<longrightarrow> grid_origin E s Y0 X0 = flat b)
       \<and> (bin_origin s = None \<longrightarrow>
            grid_origin E s Y0 X0 = replicate (length (grid_width E s Y0 X0)) 0)
       \<and> bin_width s' = Some (vec (grid_width E s Y0 X0))
       \<and> bin_origin s' = Some (vec (grid_origin E s Y0 X0))
       \<and> (r = None \<longrightarrow>
            (\<exists>hY hX. muY s' = Some hY \<and> muX s' = Some hX
               \<and> SparseHist Y0 (grid_width E s Y0 X0) (grid_origin E s Y0 X0) = Inr hY
               \<and> SparseHist X0 (grid_width E s Y0 X0) (grid_origin E s Y0 X0) = Inr hX
               \<and> h_width hY = h_width hX \<and> h_origin hY = h_origin hX))"
proof -
  have g: "(\<forall>b. bin_width s = Some b \<longrightarrow> grid_width E s Y0 X0 = flat b)
       \<and> (bin_width s = None \<longrightarrow> grid_width E s Y0 X0 = flat (bin_width_estimator E [Y0, X0]))
       \<and> (\<forall>b. bin_origin s = Some b \<longrightarrow> grid_origin E s Y0 X0 = flat b)
       \<and> (bin_origin s = None \<longrightarrow>
            grid_origin E s Y0 X0 = replicate (length (grid_width E s Y0 X0)) 0)"
    by (simp add: grid_width_def grid_origin_def)
  have h: "\<exists>hY hX. muY s' = Some hY \<and> muX s' = Some hX
               \<and> SparseHist Y0 (grid_width E s Y0 X0) (grid_origin E s Y0 X0) = Inr hY
               \<and> SparseHist X0 (grid_width E s Y0 X0) (grid_origin E s Y0 X0) = Inr hX
               \<and> h_width hY = h_width hX \<and> h_origin hY = h_origin hX" if "r = None"
  proof -
    from assms that fit_returns[of E s Y0 X0 s' tr] obtain hY hX where
      *: "SparseHist Y0 (grid_width E s Y0 X0) (grid_origin E s Y0 X0) = Inr hY"
         "SparseHist X0 (grid_width E s Y0 X0) (grid_origin E s Y0 X0) = Inr hX"
         "muY s' = Some hY" "muX s' = Some hX"
      by auto
    from SparseHist_grid[OF *(1)] SparseHist_grid[OF *(2)] * show ?thesis by simp
  qed
  from fit_attrs[OF assms] g h show ?thesis by blast
qed

theorem fit_grid_witness:
  "fit E_ref (init None None (fresh Exact)) Y0_ref X0_ref
     = (None, fitted_ref, [SolverFit (fresh Exact) hX_ref hY_ref])
   \<and> bin_width (init None None (fresh Exact) :: ref_solver otc) = None
   \<and> grid_width E_ref (init None None (fresh Exact)) Y0_ref X0_ref
       = flat (bin_width_estimator E_ref [Y0_ref, X0_ref])
   \<and> bin_width fitted_ref = Some (vec [1]) \<and> bin_origin fitted_ref = Some (vec [0])
   \<and> SparseHist Y0_ref [1] [0] = Inr hY_ref \<and> SparseHist X0_ref [1] [0] = Inr hX_ref
   \<and> muY fitted_ref = Some hY_ref \<and> muX fitted_ref = Some hX_ref"
proof -
  have n: "bin_width (init None None (fresh Exact) :: ref_solver otc) = None" by simp
  from fit_grid[OF fit_auto] n
  have "grid_width E_ref (init None None (fresh Exact)) Y0_ref X0_ref
       = flat (bin_width_estimator E_ref [Y0_ref, X0_ref])" by blast
  with fit_auto n SparseHist_Y0_ref SparseHist_X0_ref show ?thesis
    by (simp add: fitted_ref_def)
qed

text \<open>
  Claim C7 as stated fails on a second call: the corrector was built without a bin width,
  its first fit estimated 1 from the first pair of datasets, and its second fit, on the
  second pair, works with 1 again, where the estimator gives 1/2 for that pair.
\<close>

theorem second_fit_does_not_estimate:
  "fit E_ref (init None None (fresh Exact)) Y0_ref X0_ref
     = (None, fitted_ref, [SolverFit (fresh Exact) hX_ref hY_ref])
   \<and> fit E_ref fitted_ref Y1_ref X1_ref
     = (None, refitted_ref, [SolverFit (ot fitted_ref) hX_ref hY_ref])
   \<and> bin_width refitted_ref = Some (vec [1])
   \<and> ravel (bin_width_estimator E_ref [Y1_ref, X1_ref]) = vec [1 / 2]
   \<and> bin_width refitted_ref \<noteq> Some (ravel (bin_width_estimator E_ref [Y1_ref, X1_ref]))"
  by (simp add: fit_auto fit_again)
     (simp add: refitted_ref_def fitted_ref_def E_ref_def ref_estimator_def Y1_ref_def X1_ref_def
        ravel_def vec_def)

text \<open>
  Claim C9. Whatever a call of fit does afterwards, it leaves \<open>bin_width\<close> and \<open>bin_origin\<close>
  as flat vectors, not None. A second call finds them so and keeps them: for a corrector
  built without a bin width, the second call works with the estimate that the first call
  made from its own two datasets, whatever the datasets of the second call are.
\<close>

theorem fit_keeps_bin_width:
  assumes "fit E s Y0 X0 = (r1, s1, tr1)"
      and "fit E s1 Y1 X1 = (r2, s2, tr2)"
  shows "(\<exists>w og. bin_width s1 = Some (vec w) \<and> bin_origin s1 = Some (vec og))
       \<and> (\<exists>b c. bin_width s1 = Some b \<and> is_1d b \<and> bin_origin s1 = Some c \<and> is_1d c)
       \<and> bin_width s2 = bin_width s1 \<and> bin_origin s2 = bin_origin s1
       \<and> grid_width E s1 Y1 X1 = grid_width E s Y0 X0
       \<and> (bin_width s = None \<longrightarrow>
            bin_width s2 = Some (ravel (bin_width_estimator E [Y0, X0])))"
proof -
  from fit_attrs[OF assms(1)] have 1:
    "bin_width s1 = Some (vec (grid_width E s Y0 X0))"
    "bin_origin s1 = Some (vec (grid_origin E s Y0 X0))" by simp_all
  from 1 have gw: "grid_width E s1 Y1 X1 = grid_width E s Y0 X0"
    and go: "grid_origin E s1 Y1 X1 = grid_origin E s Y0 X0"
    by (simp_all add: grid_width_def grid_origin_def)
  from fit_attrs[OF assms(2)] gw go have 2:
    "bin_width s2 = bin_width s1" "bin_origin s2 = bin_origin s1"
    using 1 by simp_all
  have 3: "bin_width s2 = Some (ravel (bin_width_estimator E [Y0, X0]))" if "bin_width s = None"
    using that 1 2 by (simp add: grid_width_def ravel_def)
  have 4: "\<exists>w og. bin_width s1 = Some (vec w) \<and> bin_origin s1 = Some (vec og)"
    using 1 by blast
  have 5: "\<exists>b c. bin_width s1 = Some b \<and> is_1d b \<and> bin_origin s1 = Some c \<and> is_1d c"
    using 1 by simp
  from 2 3 4 5 gw show ?thesis by blast
qed

theorem fit_keeps_bin_width_witness:
  "fit E_ref (init None None (fresh Exact)) Y0_ref X0_ref
     = (None, fitted_ref, [SolverFit (fresh Exact) hX_ref hY_ref])
   \<and> fit E_ref fitted_ref Y1_ref X1_ref
     = (None, refitted_ref, [SolverFit (ot fitted_ref) hX_ref hY_ref])
   \<and> bin_width (init None None (fresh Exact) :: ref_solver otc) = None
   \<and> bin_width refitted_ref = Some (ravel (bin_width_estimator E_ref [Y0_ref, X0_ref]))
   \<and> bin_width refitted_ref = bin_width fitted_ref"
proof -
  have n: "bin_width (init None None (fresh Exact) :: ref_solver otc) = None" by simp
  from fit_keeps_bin_width[OF fit_auto fit_again] n
  have "bin_width refitted_ref = Some (ravel (bin_width_estimator E_ref [Y0_ref, X0_ref]))"
    and "bin_width refitted_ref = bin_width fitted_ref" by blast+
  with n fit_auto fit_again show ?thesis by blast
qed

section \<open>Prediction before a fit\<close>

lemma predict_no_muX: "muX s = None \<Longrightarrow> predict s u k X = (Inl AttributeError, k)"
  by (simp add: predict_def)

lemma fit_fails_muX: "fit E s Y0 X0 = (Some e, s', tr) \<Longrightarrow> muX s' = muX s"
  by (auto simp: fit_eq Let_def split: sum.splits if_splits)

text \<open>
  Claim C5, as the code has it. A new corrector has no source histogram, and a fit that
  raises leaves the corrector without one if it had none. On a corrector without source
  histogram, predict raises Python's AttributeError at once: no number is drawn from the
  random source.
\<close>

theorem predict_before_fit:
  "muX (init bw bo sv) = None
   \<and> (\<forall>e s' tr. muX s = None \<and> fit E s Y0 X0 = (Some e, s', tr) \<longrightarrow> muX s' = None)
   \<and> (muX s = None \<longrightarrow> predict s u k X = (Inl AttributeError, k))"
  using fit_fails_muX[of E s Y0 X0] by (auto simp: predict_no_muX)

theorem predict_before_fit_witness:
  "muX s_ref = None
   \<and> fit E_ref s_ref Y0_ref X2_ref = (Some InvalidGrid, half_fitted_ref, [])
   \<and> predict half_fitted_ref u_ref 0 X0_ref = (Inl AttributeError, 0)
   \<and> predict s_ref u_ref 0 X0_ref = (Inl AttributeError, 0)"
proof -
  have m: "muX s_ref = None" by (simp add: s_ref_def)
  have gw: "grid_width E_ref s_ref Y0_ref X2_ref = [1]"
    by (simp add: grid_width_def s_ref_def)
  have go: "grid_origin E_ref s_ref Y0_ref X2_ref = [0]"
    by (simp add: grid_origin_def grid_width_def s_ref_def)
  have bad: "SparseHist X2_ref [1] [0] = Inl InvalidGrid"
    by (simp add: SparseHist_def X2_ref_def)
  have f: "fit E_ref s_ref Y0_ref X2_ref = (Some InvalidGrid, half_fitted_ref, [])"
    by (simp add: fit_eq gw go SparseHist_Y0_ref bad half_fitted_ref_def)
  have m': "muX half_fitted_ref = None" by (simp add: half_fitted_ref_def s_ref_def)
  from predict_before_fit[of "Some (vec [1])" None "fresh Exact" s_ref E_ref Y0_ref X2_ref u_ref 0 X0_ref]
  have 1: "predict s_ref u_ref 0 X0_ref = (Inl AttributeError, 0)" using m by blast
  from predict_before_fit[of "Some (vec [1])" None "fresh Exact" half_fitted_ref E_ref Y0_ref X2_ref u_ref 0 X0_ref]
  have 2: "predict half_fitted_ref u_ref 0 X0_ref = (Inl AttributeError, 0)" using m' by blast
  from m f 1 2 show ?thesis by simp
qed

text \<open>
  Claim C5 as stated fails: the error of predict on a new corrector is AttributeError, not
  an error of the class NotFitted.
\<close>

theorem predict_before_fit_not_NotFitted:
  "fst (predict s_ref u_ref 0 X0_ref) = Inl AttributeError
   \<and> fst (predict s_ref u_ref 0 X0_ref) \<noteq> Inl NotFitted"
  by (simp add: predict_def s_ref_def)

section \<open>A source bin without mass\<close>

text \<open>
  Claim C2 fails on the code. The solver of this corrector reports success and returns a
  plan whose first row is zero. fit raises nothing and prints nothing, and stores a plan
  whose first row is \<open>nan\<close>; predict on a sample of the first source bin then fails in the
  sampler, before a number is drawn.
\<close>

theorem fit_zero_row_stores_nan:
  "fit E_ref s_starve Y0_ref X0_ref = (None, starved_ref, [SolverFit (fresh Starve) hX_ref hY_ref])
   \<and> ot_plan E_ref (ot starved_ref) = Mat 2 2 [[Fin 0, Fin 0], [Fin (1 / 4), Fin (1 / 4)]]
   \<and> plan starved_ref = Some (Mat 2 2 [[NaN, NaN], [Fin (1 / 2), Fin (1 / 2)]])
   \<and> predict starved_ref u_ref 0 (Mat 1 1 [[0]]) = (Inl ValueError, 0)"
proof -
  have "argwhere hX_ref (Mat 1 1 [[0]]) = Inr [0]"
    by (simp add: argwhere_def hX_ref_def bin_index_def)
  then have "predict starved_ref u_ref 0 (Mat 1 1 [[0]]) = (Inl ValueError, 0)"
    by (simp add: predict_def starved_ref_def choice_def hY_ref_def)
  then show ?thesis
    by (simp add: fit_starve) (simp add: starved_ref_def E_ref_def)
qed

section \<open>ECBC\<close>

text \<open>
  Claim C10. After a fit of ECBC that returns, the shuffle of the corrector is the one
  fitted on the reference dataset. With a second dataset, predict returns the pair of the
  two corrections of CDFt, each passed through that shuffle; without, the one correction
  of CDFt passed through it.
\<close>

theorem ECBC_predict_shuffles:
  assumes "ECBC_fit C e0 Y0 X0 X1 = (None, e)"
  shows "ss_fit C (ss e0) Y0 = (None, ss e)
       \<and> (\<forall>Q0 Z1 Z0 A B. CDFt_predict C (cdft e) Q1 (Some Q0) = Inr (Tuple Z1 Z0)
            \<and> ss_predict C (ss e) Z1 = Inr A \<and> ss_predict C (ss e) Z0 = Inr B
            \<longrightarrow> ECBC_predict C e Q1 (Some Q0) = Inr (Tuple A B))
       \<and> (\<forall>Z1 A. CDFt_predict C (cdft e) Q1 None = Inr Z1 \<and> ss_predict C (ss e) Z1 = Inr A
            \<longrightarrow> ECBC_predict C e Q1 None = Inr A)"
proof -
  from assms have "ss_fit C (ss e0) Y0 = (None, ss e)"
    by (auto simp: ECBC_fit_def split: prod.splits option.splits)
  then show ?thesis by (simp add: ECBC_predict_def)
qed

theorem ECBC_predict_shuffles_witness:
  "ECBC_fit C_ref (ECBC_init C_ref 0) (Nd (Arr [Num 0, Num 1])) (Nd (Arr [Num 0, Num 2])) None
     = (None, \<lparr> cdft = 1, ss = Some (Nd (Arr [Num 0, Num 1])) \<rparr>)
   \<and> ECBC_predict C_ref \<lparr> cdft = 1, ss = Some (Nd (Arr [Num 0, Num 1])) \<rparr>
       (Nd (Arr [Num 3, Num 4])) (Some (Nd (Arr [Num 5, Num 6])))
     = Inr (Tuple (Nd (Arr [Num 4, Num 3])) (Nd (Arr [Num 6, Num 5])))
   \<and> ECBC_predict C_ref \<lparr> cdft = 1, ss = Some (Nd (Arr [Num 0, Num 1])) \<rparr>
       (Nd (Arr [Num 3, Num 4])) None
     = Inr (Nd (Arr [Num 4, Num 3]))"
proof -
  let ?e = "\<lparr> cdft = 1::nat, ss = Some (Nd (Arr [Num 0, Num 1])) \<rparr>"
  have f: "ECBC_fit C_ref (ECBC_init C_ref 0) (Nd (Arr [Num 0, Num 1])) (Nd (Arr [Num 0, Num 2])) None
     = (None, ?e)"
    by (simp add: ECBC_fit_def ECBC_init_def C_ref_def)
  have c2: "CDFt_predict C_ref (cdft ?e) (Nd (Arr [Num 3, Num 4])) (Some (Nd (Arr [Num 5, Num 6])))
     = Inr (Tuple (Nd (Arr [Num 3, Num 4])) (Nd (Arr [Num 5, Num 6])))"
    by (simp add: C_ref_def)
  have c1: "CDFt_predict C_ref (cdft ?e) (Nd (Arr [Num 3, Num 4])) None = Inr (Nd (Arr [Num 3, Num 4]))"
    by (simp add: C_ref_def)
  have s1: "ss_predict C_ref (ss ?e) (Nd (Arr [Num 3, Num 4])) = Inr (Nd (Arr [Num 4, Num 3]))"
    by (simp add: C_ref_def)
  have s2: "ss_predict C_ref (ss ?e) (Nd (Arr [Num 5, Num 6])) = Inr (Nd (Arr [Num 6, Num 5]))"
    by (simp add: C_ref_def)
  from ECBC_predict_shuffles[OF f, of "Nd (Arr [Num 3, Num 4])"] c2 c1 s1 s2 f
  show ?thesis by blast
qed

section \<open>Prediction\<close>

lemma index_of_bound: "index_of a bs = Some i \<Longrightarrow> i < length bs"
  by (induction bs arbitrary: i) (auto split: if_splits option.splits)

lemma index_of_mem: "a \<in> set bs \<Longrightarrow> \<exists>i. index_of a bs = Some i"
  by (induction bs) auto

lemma lookup_rows_total:
  assumes "list_all (\<lambda>x. bin_index (h_width h) (h_origin h) x \<in> set (h_bins h)) xs"
  shows "\<exists>indx. lookup_rows h xs = Inr indx \<and> length indx = length xs
           \<and> list_all (\<lambda>i. i < length (h_bins h)) indx"
  using assms
proof (induction xs)
  case Nil
  then show ?case by simp
next
  case (Cons x xs)
  then obtain indx where ih: "lookup_rows h xs = Inr indx" "length indx = length xs"
      "list_all (\<lambda>i. i < length (h_bins h)) indx"
    by auto
  from Cons.prems obtain i where i: "index_of (bin_index (h_width h) (h_origin h) x) (h_bins h) = Some i"
    using index_of_mem by fastforce
  with index_of_bound have "i < length (h_bins h)" by fastforce
  with ih i show ?case by simp
qed

lemma argwhere_total:
  assumes "in_support h X"
  shows "\<exists>indx. argwhere h X = Inr indx \<and> length indx = length (rows X)
           \<and> list_all (\<lambda>i. i < length (h_bins h)) indx"
  using assms lookup_rows_total[of h "rows X"] by (simp add: in_support_def argwhere_def)

lemma length_cumsum [simp]: "length (cumsum a q) = length q"
  by (induction q arbitrary: a) simp_all

lemma last_cumsum: "q \<noteq> [] \<Longrightarrow> last (cumsum a q) = a + sum_list q"
proof (induction q arbitrary: a)
  case Nil
  then show ?case by simp
next
  case (Cons x q)
  show ?case
  proof (cases q)
    case Nil
    then show ?thesis by simp
  next
    case (Cons y ys)
    then have "q \<noteq> []" by simp
    from Cons.IH[OF this, of "a + x"] show ?thesis
      using \<open>q \<noteq> []\<close> by (cases q) (simp_all add: add.assoc)
  qed
qed

lemma takeWhile_stops: "xs \<noteq> [] \<Longrightarrow> \<not> P (last xs) \<Longrightarrow> length (takeWhile P xs) < length xs"
  by (induction xs) (auto split: if_splits)

lemma choice_partial:
  "choice n p u k = (Inr j, k') \<Longrightarrow> j < n \<and> k' = Suc k"
  by (auto simp: choice_def Let_def split: if_splits option.splits)

lemma choice_total:
  assumes "0 < n" "length q = n" "\<forall>x\<in>set q. 0 \<le> x" "sum_list q = 1" "0 \<le> u k" "u k < 1"
  shows "\<exists>j<n. choice n (map Fin q) u k = (Inr j, Suc k)"
proof -
  let ?cdf = "map (\<lambda>t. t / sum_list q) (cumsum 0 q)"
  have ne: "q \<noteq> []" using assms(1,2) by auto
  then have "cumsum 0 q \<noteq> []" by (cases q) simp_all
  then have "last ?cdf = last (cumsum 0 q) / sum_list q"
    by (simp add: last_map)
  also have "\<dots> = 1" using last_cumsum[OF ne, of 0] assms(4) by simp
  finally have "\<not> (last ?cdf \<le> u k)" using assms(6) by simp
  moreover have "?cdf \<noteq> []" using ne by (cases q) simp_all
  ultimately have "length (takeWhile (\<lambda>c. c \<le> u k) ?cdf) < length ?cdf"
    by (rule takeWhile_stops[rotated])
  then have idx: "searchsorted_right ?cdf (u k) < n"
    using assms(2) by (simp add: searchsorted_right_def)
  have nn: "\<not> list_ex (\<lambda>x. x < 0) q"
    using assms(3) by (auto simp: list_ex_iff)
  show ?thesis
    using assms(1,2,4) idx nn
    by (simp add: choice_def finite_list_map_Fin Let_def)
qed

lemma draw_loop_partial:
  "draw_loop s u k indx = (Inr indy, k') \<Longrightarrow> muY s = Some hY \<Longrightarrow>
     length indy = length indx \<and> list_all (\<lambda>j. j < h_size hY) indy \<and> k' = k + length indx"
proof (induction indx arbitrary: k indy)
  case Nil
  then show ?case by simp
next
  case (Cons ix ixs)
  from Cons.prems obtain P j k1 js where
    P: "plan s = Some P" "ix < nrows P"
    and c: "choice (h_size hY) (rows P ! ix) u k = (Inr j, k1)"
    and r: "draw_loop s u k1 ixs = (Inr js, k')" and e: "indy = j # js"
    by (auto split: option.splits if_splits prod.splits sum.splits)
  from choice_partial[OF c] have "j < h_size hY" "k1 = Suc k" by simp_all
  with Cons.IH[OF r Cons.prems(2)] e show ?case by simp
qed

lemma draw_loop_total:
  assumes "muY s = Some hY" "plan s = Some P" "0 < h_size hY"
      and "\<forall>i<nrows P. \<exists>q. rows P ! i = map Fin q \<and> length q = h_size hY
              \<and> (\<forall>x\<in>set q. 0 \<le> x) \<and> sum_list q = 1"
      and "\<forall>k. 0 \<le> u k \<and> u k < 1"
      and "list_all (\<lambda>i. i < nrows P) indx"
  shows "\<exists>indy. draw_loop s u k indx = (Inr indy, k + length indx)"
  using assms(6)
proof (induction indx arbitrary: k)
  case Nil
  then show ?case by simp
next
  case (Cons ix ixs)
  then have ix: "ix < nrows P" and rest: "list_all (\<lambda>i. i < nrows P) ixs" by simp_all
  from assms(4) ix obtain q where q: "rows P ! ix = map Fin q" "length q = h_size hY"
      "\<forall>x\<in>set q. 0 \<le> x" "sum_list q = 1" by blast
  from choice_total[OF assms(3) q(2) q(3) q(4), of u k] assms(5)
  obtain j where j: "choice (h_size hY) (map Fin q) u k = (Inr j, Suc k)" by blast
  from Cons.IH[OF rest, of "Suc k"] obtain js where
    js: "draw_loop s u (Suc k) ixs = (Inr js, Suc k + length ixs)" by blast
  show ?case using assms(1,2) ix q(1) j js by simp
qed

lemma nonneg_Fin: "list_all nonneg (map Fin q) \<longleftrightarrow> (\<forall>x\<in>set q. 0 \<le> x)"
  by (induction q) auto

lemma normalized_row_prob:
  assumes "list_all nonneg r" "np_sum r = Fin t" "0 < t"
  shows "\<exists>q. map (\<lambda>x. np_div x (np_sum r)) r = map Fin q \<and> length q = length r
           \<and> (\<forall>x\<in>set q. 0 \<le> x) \<and> sum_list q = 1"
proof -
  from np_sum_Fin_imp[OF assms(2)] obtain q where q: "r = map Fin q" "sum_list q = t" by blast
  have tn: "t \<noteq> 0" using assms(3) by simp
  have pos: "\<forall>x\<in>set q. 0 \<le> x" using assms(1) q(1) by (simp add: nonneg_Fin)
  let ?q = "map (\<lambda>x. x / t) q"
  have 1: "map (\<lambda>x. np_div x (np_sum r)) r = map Fin ?q"
    using div_Fin_row[OF tn, of q] q(1) assms(2) by simp
  have 2: "length ?q = length r" using q(1) by simp
  have 3: "\<forall>x\<in>set ?q. 0 \<le> x" using pos assms(3) by auto
  have 4: "sum_list ?q = 1" using q(2) tn by (simp add: sum_list_div)
  from 1 2 3 4 show ?thesis by blast
qed

lemma transport_plan_rows:
  assumes "transport_plan hX hY R"
  shows "nrows (normalize R) = h_size hX"
    and "\<forall>i<nrows (normalize R). \<exists>q. rows (normalize R) ! i = map Fin q \<and> length q = h_size hY
              \<and> (\<forall>x\<in>set q. 0 \<le> x) \<and> sum_list q = 1"
proof -
  from assms have wf: "wf_mat R" and n: "nrows R = h_size hX" and c: "ncols R = h_size hY"
    and nn: "list_all (list_all nonneg) (rows R)" and pr: "positive_rows R"
    by (simp_all add: transport_plan_def)
  from wf have len: "length (rows R) = nrows R"
    and cols: "\<And>r. r \<in> set (rows R) \<Longrightarrow> length r = ncols R"
    by (auto simp: wf_mat_def list_all_iff)
  show "nrows (normalize R) = h_size hX" by (simp add: normalize_rows[OF wf] n)
  show "\<forall>i<nrows (normalize R). \<exists>q. rows (normalize R) ! i = map Fin q \<and> length q = h_size hY
              \<and> (\<forall>x\<in>set q. 0 \<le> x) \<and> sum_list q = 1"
  proof (intro allI impI)
    fix i
    assume "i < nrows (normalize R)"
    then have i: "i < length (rows R)" by (simp add: normalize_rows[OF wf] len)
    let ?r = "rows R ! i"
    from i have mem: "?r \<in> set (rows R)" by simp
    from mem nn have a: "list_all nonneg ?r" by (simp add: list_all_iff)
    from mem pr have "case np_sum ?r of Fin t \<Rightarrow> 0 < t | _ \<Rightarrow> False"
      by (simp add: positive_rows_def list_all_iff)
    then obtain t where t: "np_sum ?r = Fin t" "0 < t" by (cases "np_sum ?r") simp_all
    from normalized_row_prob[OF a t] obtain q where
      q: "map (\<lambda>x. np_div x (np_sum ?r)) ?r = map Fin q" "length q = length ?r"
         "\<forall>x\<in>set q. 0 \<le> x" "sum_list q = 1" by blast
    have "rows (normalize R) ! i = map (\<lambda>x. np_div x (np_sum ?r)) ?r"
      using i by (simp add: normalize_rows[OF wf])
    with q cols[OF mem] c show "\<exists>q. rows (normalize R) ! i = map Fin q \<and> length q = h_size hY
              \<and> (\<forall>x\<in>set q. 0 \<le> x) \<and> sum_list q = 1"
      by auto
  qed
qed

lemma SparseHist_shape:
  assumes "SparseHist X w og = Inr h"
  shows "h_size h = length (h_bins h)" "nrows (h_c h) = h_size h" "ncols (h_c h) = ncols X"
    "length (rows (h_c h)) = h_size h" "length (h_width h) = ncols X" "length w = ncols X"
  using assms by (auto simp: SparseHist_def Let_def split: if_splits)

lemma predict_fitted:
  assumes "fit E s Y0 X0 = (None, s', tr)"
      and "muX s' = Some hX" "muY s' = Some hY"
      and "transport_plan hX hY (ot_plan E (ot s'))"
      and "in_support hX X"
      and "unit_draws u"
  shows "\<exists>indy. predict s' u k X
            = (Inr (Mat (length indy) (ncols (h_c hY)) (map (\<lambda>j. rows (h_c hY) ! j) indy)),
               k + length (rows X))
          \<and> length indy = length (rows X)
          \<and> list_all (\<lambda>j. j < length (rows (h_c hY))) indy"
proof -
  let ?P = "normalize (ot_plan E (ot s'))"
  from fit_returns[OF assms(1)] assms(2,3) have
    hY: "SparseHist Y0 (grid_width E s Y0 X0) (grid_origin E s Y0 X0) = Inr hY"
    and hX: "SparseHist X0 (grid_width E s Y0 X0) (grid_origin E s Y0 X0) = Inr hX"
    and pl: "plan s' = Some ?P" by auto
  from argwhere_total[OF assms(5)] obtain indx where
    indx: "argwhere hX X = Inr indx" "length indx = length (rows X)"
      "list_all (\<lambda>i. i < length (h_bins hX)) indx" by blast
  have np: "nrows ?P = h_size hX" by (rule transport_plan_rows(1)[OF assms(4)])
  have rowsP: "\<forall>i<nrows ?P. \<exists>q. rows ?P ! i = map Fin q \<and> length q = h_size hY
              \<and> (\<forall>x\<in>set q. 0 \<le> x) \<and> sum_list q = 1"
    by (rule transport_plan_rows(2)[OF assms(4)])
  have inP: "list_all (\<lambda>i. i < nrows ?P) indx"
    using indx(3) np SparseHist_shape(1)[OF hX] by simp
  have sz: "length (rows (h_c hY)) = h_size hY" "nrows (h_c hY) = h_size hY"
    using SparseHist_shape[OF hY] by simp_all
  have u: "\<forall>k. 0 \<le> u k \<and> u k < 1" using assms(6) by (simp add: unit_draws_def)
  show ?thesis
  proof (cases indx)
    case Nil
    then have "rows X = []" using indx(2) by simp
    then show ?thesis using Nil indx(1) assms(2,3)
      by (simp add: predict_def take_rows_def)
  next
    case (Cons i0 rest)
    then have "i0 < nrows ?P" using inP by simp
    with rowsP obtain q where q: "rows ?P ! i0 = map Fin q" "length q = h_size hY"
      "\<forall>x\<in>set q. 0 \<le> x" "sum_list q = 1" by blast
    have "q \<noteq> []" using q(4) by auto
    then have "0 < length q" by simp
    then have pos: "0 < h_size hY" using q(2) by simp
    from draw_loop_total[OF assms(3) pl pos rowsP u inP, of k] obtain indy where
      d: "draw_loop s' u k indx = (Inr indy, k + length indx)" by blast
    from draw_loop_partial[OF d assms(3)] have
      l: "length indy = length indx" and b: "list_all (\<lambda>j. j < h_size hY) indy" by simp_all
    have "take_rows (h_c hY) indy
            = Inr (Mat (length indy) (ncols (h_c hY)) (map (\<lambda>j. rows (h_c hY) ! j) indy))"
      using b sz by (simp add: take_rows_def)
    then have "predict s' u k X
            = (Inr (Mat (length indy) (ncols (h_c hY)) (map (\<lambda>j. rows (h_c hY) ! j) indy)),
               k + length (rows X))"
      using indx(1,2) d assms(2,3) by (simp add: predict_def)
    moreover have "length indy = length (rows X)" using l indx(2) by simp
    moreover have "list_all (\<lambda>j. j < length (rows (h_c hY))) indy" using b sz by simp
    ultimately show ?thesis by (intro exI[of _ indy]) simp
  qed
qed

lemma predict_partial_centers:
  assumes "fit E s Y0 X0 = (None, s', tr)" "muY s' = Some hY"
      and "predict s' u k X = (Inr Z, k')"
  shows "list_all (\<lambda>z. z \<in> set (rows (h_c hY))) (rows Z)"
proof -
  from fit_returns[OF assms(1)] assms(2) have
    hY: "SparseHist Y0 (grid_width E s Y0 X0) (grid_origin E s Y0 X0) = Inr hY" by auto
  from assms(3,2) obtain indy where t: "take_rows (h_c hY) indy = Inr Z"
    by (auto simp: predict_def split: option.splits sum.splits prod.splits)
  then have b: "list_all (\<lambda>j. j < nrows (h_c hY)) indy"
    and Z: "rows Z = map (\<lambda>j. rows (h_c hY) ! j) indy"
    by (auto simp: take_rows_def split: if_splits)
  from SparseHist_shape[OF hY] have "nrows (h_c hY) = length (rows (h_c hY))" by simp
  with b show ?thesis by (simp add: Z list_all_iff)
qed

lemma unit_draws_u_ref: "unit_draws u_ref"
  by (simp add: unit_draws_def u_ref_def)

lemma transport_plan_ref: "transport_plan hX_ref hY_ref (ot_plan E_ref (ot fitted_ref))"
  by (simp add: transport_plan_def E_ref_def fitted_ref_def raw_ref_def wf_mat_def hX_ref_def
      hY_ref_def positive_rows_def np_sum_def)

lemma in_support_Xq_ref: "in_support hX_ref Xq_ref"
  by (simp add: in_support_def hX_ref_def Xq_ref_def bin_index_def)

lemma fitted_ref_hists: "muX fitted_ref = Some hX_ref" "muY fitted_ref = Some hY_ref"
  by (simp_all add: fitted_ref_def)

lemma argwhere_Xq_ref: "argwhere hX_ref Xq_ref = Inr [1, 0]"
  by (simp add: argwhere_def hX_ref_def Xq_ref_def bin_index_def)

lemma choice_ref_0: "choice 2 [Fin (1 / 2), Fin (1 / 2)] u_ref 0 = (Inr 1, 1)"
  by (simp add: choice_def u_ref_def searchsorted_right_def)

lemma choice_ref_1: "choice 2 [Fin (1 / 2), Fin (1 / 2)] u_ref 1 = (Inr 0, 2)"
  by (simp add: choice_def u_ref_def searchsorted_right_def)

lemma predict_ref:
  "predict fitted_ref u_ref 0 Xq_ref = (Inr (Mat 2 1 [[3 / 2], [1 / 2]]), 2)"
proof -
  have "draw_loop fitted_ref u_ref 0 [1, 0] = (Inr [1, 0], 2)"
    using choice_ref_0 choice_ref_1
    by (simp add: fitted_ref_def plan_ref_def hY_ref_def)
  then show ?thesis
    by (simp add: predict_def fitted_ref_hists argwhere_Xq_ref)
       (simp add: take_rows_def hY_ref_def)
qed

text \<open>
  Claim C4. After a fit that returns, whenever predict returns a matrix, each of its rows
  is one of the rows of \<open>muY.c\<close>, the bin centers of the reference histogram. And predict
  does return when the raw plan is a transport plan between the two histograms, every
  row of the query falls into an occupied source bin and the draws lie in \<open>[0, 1)\<close>.
\<close>

theorem predict_returns_centers:
  assumes "fit E s Y0 X0 = (None, s', tr)"
      and "muX s' = Some hX" "muY s' = Some hY"
  shows "(\<forall>Z k'. predict s' u k X = (Inr Z, k') \<longrightarrow>
            list_all (\<lambda>z. z \<in> set (rows (h_c hY))) (rows Z))
       \<and> (transport_plan hX hY (ot_plan E (ot s')) \<and> in_support hX X \<and> unit_draws u \<longrightarrow>
            (\<exists>Z k'. predict s' u k X = (Inr Z, k')
               \<and> list_all (\<lambda>z. z \<in> set (rows (h_c hY))) (rows Z)))"
proof -
  have 1: "\<forall>Z k'. predict s' u k X = (Inr Z, k') \<longrightarrow>
            list_all (\<lambda>z. z \<in> set (rows (h_c hY))) (rows Z)"
    using predict_partial_centers[OF assms(1,3)] by blast
  have 2: "\<exists>Z k'. predict s' u k X = (Inr Z, k')
               \<and> list_all (\<lambda>z. z \<in> set (rows (h_c hY))) (rows Z)"
    if "transport_plan hX hY (ot_plan E (ot s'))" "in_support hX X" "unit_draws u"
  proof -
    from predict_fitted[OF assms that, of k] obtain Z k' where "predict s' u k X = (Inr Z, k')"
      by blast
    with 1 show ?thesis by blast
  qed
  from 1 2 show ?thesis by blast
qed

theorem predict_returns_centers_witness:
  "fit E_ref s_ref Y0_ref X0_ref = (None, fitted_ref, [SolverFit (fresh Exact) hX_ref hY_ref])
   \<and> muX fitted_ref = Some hX_ref \<and> muY fitted_ref = Some hY_ref
   \<and> transport_plan hX_ref hY_ref (ot_plan E_ref (ot fitted_ref))
   \<and> in_support hX_ref Xq_ref \<and> unit_draws u_ref
   \<and> predict fitted_ref u_ref 0 Xq_ref = (Inr (Mat 2 1 [[3 / 2], [1 / 2]]), 2)
   \<and> rows (h_c hY_ref) = [[1 / 2], [3 / 2]]
   \<and> list_all (\<lambda>z. z \<in> set (rows (h_c hY_ref))) [[3 / 2], [1 / 2]]"
proof -
  from predict_returns_centers[OF fit_ref fitted_ref_hists, of u_ref 0 Xq_ref] predict_ref
  have "list_all (\<lambda>z. z \<in> set (rows (h_c hY_ref))) (rows (Mat 2 1 [[3 / 2], [1 / 2 :: real]]))"
    by blast
  then have "list_all (\<lambda>z. z \<in> set (rows (h_c hY_ref))) [[3 / 2], [1 / 2]]" by simp
  moreover have "rows (h_c hY_ref) = [[1 / 2], [3 / 2]]" by (simp add: hY_ref_def)
  ultimately show ?thesis
    using fit_ref fitted_ref_hists transport_plan_ref in_support_Xq_ref unit_draws_u_ref predict_ref
    by blast
qed

lemma lookup_rows_length: "lookup_rows h xs = Inr indx \<Longrightarrow> length indx = length xs"
  by (induction xs arbitrary: indx) (auto split: option.splits sum.splits)

lemma argwhere_Inr:
  "argwhere h X = Inr indx \<Longrightarrow> length indx = length (rows X) \<and> ncols X = length (h_width h)"
  by (auto simp: argwhere_def lookup_rows_length split: if_splits)

text \<open>
  Whatever the plan is: after a fit that returns, a matrix that predict returns has one
  row per row of the query and as many columns as the datasets of the fit and the query
  have.
\<close>

lemma predict_returns_shape:
  assumes "fit E s Y0 X0 = (None, s', tr)" "wf_mat X"
      and "predict s' u k X = (Inr Z, k')"
  shows "nrows Z = nrows X \<and> ncols Z = ncols Y0 \<and> ncols Z = ncols X0 \<and> ncols Z = ncols X
         \<and> k' = k + nrows X"
proof -
  from fit_returns[OF assms(1)] obtain hY hX where
    hY: "SparseHist Y0 (grid_width E s Y0 X0) (grid_origin E s Y0 X0) = Inr hY"
    and hX: "SparseHist X0 (grid_width E s Y0 X0) (grid_origin E s Y0 X0) = Inr hX"
    and m: "muY s' = Some hY" "muX s' = Some hX" by blast
  from assms(3) m obtain indx indy where
    a: "argwhere hX X = Inr indx" and d: "draw_loop s' u k indx = (Inr indy, k')"
    and t: "take_rows (h_c hY) indy = Inr Z"
    by (auto simp: predict_def split: sum.splits prod.splits)
  from t have Z: "nrows Z = length indy" "ncols Z = ncols (h_c hY)"
    by (auto simp: take_rows_def split: if_splits)
  from draw_loop_partial[OF d m(1)] have l: "length indy = length indx" "k' = k + length indx"
    by simp_all
  from argwhere_Inr[OF a] have x: "length indx = length (rows X)" "ncols X = length (h_width hX)"
    by simp_all
  from assms(2) have nX: "length (rows X) = nrows X" by (simp add: wf_mat_def)
  from SparseHist_shape[OF hY] have cY: "ncols (h_c hY) = ncols Y0"
    "ncols Y0 = length (grid_width E s Y0 X0)" by simp_all
  from SparseHist_shape[OF hX] have cX: "length (h_width hX) = ncols X0"
    "ncols X0 = length (grid_width E s Y0 X0)" by simp_all
  from Z l x nX cY cX show ?thesis by simp
qed

text \<open>
  Claim C6 fails on the code, by the defect of claim C2. The corrector \<open>starved_ref\<close> is
  fitted, and the query of the one sample 0 is rectangular, has the one feature of the
  fit and falls into the first, occupied, source bin. predict returns no matrix for it:
  the sampler refuses the row of \<open>nan\<close> that the fit stored for that bin, before a number
  is drawn.
\<close>

theorem predict_raises_on_starved_bin:
  "fit E_ref s_starve Y0_ref X0_ref = (None, starved_ref, [SolverFit (fresh Starve) hX_ref hY_ref])
   \<and> muX starved_ref = Some hX_ref
   \<and> wf_mat (Mat 1 1 [[0 :: real]]) \<and> ncols (Mat 1 1 [[0 :: real]]) = ncols X0_ref
   \<and> in_support hX_ref (Mat 1 1 [[0]])
   \<and> argwhere hX_ref (Mat 1 1 [[0]]) = Inr [0]
   \<and> fst (predict starved_ref u_ref 0 (Mat 1 1 [[0]])) = Inl ValueError"
proof -
  have a: "argwhere hX_ref (Mat 1 1 [[0]]) = Inr [0]"
    by (simp add: argwhere_def hX_ref_def bin_index_def)
  then have "predict starved_ref u_ref 0 (Mat 1 1 [[0]]) = (Inl ValueError, 0)"
    by (simp add: predict_def starved_ref_def choice_def hY_ref_def)
  moreover have "in_support hX_ref (Mat 1 1 [[0]])"
    by (simp add: in_support_def hX_ref_def bin_index_def)
  moreover have "muX starved_ref = Some hX_ref" by (simp add: starved_ref_def)
  moreover have "ncols (Mat 1 1 [[0 :: real]]) = ncols X0_ref" by (simp add: X0_ref_def)
  moreover have "wf_mat (Mat 1 1 [[0 :: real]])" by (simp add: wf_mat_def)
  ultimately show ?thesis
    using a fit_starve by simp
qed

end
